theory Spec2Isabelle
  imports Complex_Main
begin

section \<open>Python values\<close>

text \<open>
  The program handles the values that \<^verbatim>\<open>response.json()\<close> yields and the dictionaries
  it builds from them. A Python \<^verbatim>\<open>str\<close> is a \<open>string\<close> whose characters stand for the
  code points below 256; a \<^verbatim>\<open>dict\<close> with string keys is an association list in insertion
  order, looked up with \<open>map_of\<close> (a parsed JSON object and a dict literal bind each key
  once).
\<close>

datatype pyfloat = Finite rat | PosInf | NegInf | NaN

datatype pyval =
    PNone
  | PBool bool
  | PInt int
  | PFloat pyfloat
  | PStr string
  | PList "pyval list"
  | PDict "(string \<times> pyval) list"

type_synonym pydict = "(string \<times> pyval) list"

text \<open>
  Exceptions: the two handlers of each component tell instances of
  \<^verbatim>\<open>requests.exceptions.RequestException\<close> (and of its subclasses) from every other
  instance of \<^verbatim>\<open>Exception\<close>. The string carried is \<^verbatim>\<open>str(e)\<close>. Signals that are not
  instances of \<^verbatim>\<open>Exception\<close> (\<^verbatim>\<open>KeyboardInterrupt\<close>, \<^verbatim>\<open>SystemExit\<close>) are not modelled.
\<close>

datatype exn = RequestException string | OtherException string

definition bind_exn :: "exn + 'a \<Rightarrow> ('a \<Rightarrow> exn + 'b) \<Rightarrow> exn + 'b" where
  "bind_exn m f = (case m of Inl e \<Rightarrow> Inl e | Inr x \<Rightarrow> f x)"

definition quote :: char where
  "quote = CHR 0x27"

fun type_name :: "pyval \<Rightarrow> string" where
  "type_name PNone = ''NoneType''"
| "type_name (PBool b) = ''bool''"
| "type_name (PInt i) = ''int''"
| "type_name (PFloat f) = ''float''"
| "type_name (PStr s) = ''str''"
| "type_name (PList xs) = ''list''"
| "type_name (PDict d) = ''dict''"

definition attribute_error :: "pyval \<Rightarrow> string \<Rightarrow> exn" where
  "attribute_error x a =
     OtherException ([quote] @ type_name x @ [quote] @ '' object has no attribute ''
                     @ [quote] @ a @ [quote])"

definition dict_get :: "pydict \<Rightarrow> string \<Rightarrow> pyval \<Rightarrow> pyval" where
  "dict_get d k dflt = (case map_of d k of Some v \<Rightarrow> v | None \<Rightarrow> dflt)"

text \<open>\<^verbatim>\<open>x.get(k, dflt)\<close>: only a dict has the method.\<close>

definition py_get :: "pyval \<Rightarrow> string \<Rightarrow> pyval \<Rightarrow> exn + pyval" where
  "py_get x k dflt =
     (case x of PDict d \<Rightarrow> Inr (dict_get d k dflt) | _ \<Rightarrow> Inl (attribute_error x ''get''))"

text \<open>\<^verbatim>\<open>len(x)\<close>: strings, lists and dicts have a length, the other values raise TypeError.\<close>

definition py_len :: "pyval \<Rightarrow> exn + nat" where
  "py_len x =
     (case x of
        PStr s \<Rightarrow> Inr (length s)
      | PList xs \<Rightarrow> Inr (length xs)
      | PDict d \<Rightarrow> Inr (length (remdups (map fst d)))
      | _ \<Rightarrow> Inl (OtherException (''object of type '' @ [quote] @ type_name x @ [quote]
                                  @ '' has no len()'')))"

text \<open>Truth value of \<^verbatim>\<open>x\<close> in \<^verbatim>\<open>if not x\<close>.\<close>

fun truthy :: "pyval \<Rightarrow> bool" where
  "truthy PNone = False"
| "truthy (PBool b) = b"
| "truthy (PInt i) = (i \<noteq> 0)"
| "truthy (PFloat f) = (f \<noteq> Finite 0)"
| "truthy (PStr s) = (s \<noteq> [])"
| "truthy (PList xs) = (xs \<noteq> [])"
| "truthy (PDict d) = (d \<noteq> [])"

text \<open>
  The elements a \<^verbatim>\<open>for\<close> loop visits: the items of a list, the keys of a dict, the
  one-character strings of a string; the other values are not iterable.
\<close>

definition py_iter :: "pyval \<Rightarrow> exn + pyval list" where
  "py_iter x =
     (case x of
        PList xs \<Rightarrow> Inr xs
      | PDict d \<Rightarrow> Inr (map PStr (remdups (map fst d)))
      | PStr s \<Rightarrow> Inr (map (\<lambda>c. PStr [c]) s)
      | _ \<Rightarrow> Inl (OtherException ([quote] @ type_name x @ [quote] @ '' object is not iterable'')))"

text \<open>\<^verbatim>\<open>str(i)\<close> of an integer, in decimal.\<close>

function dec :: "nat \<Rightarrow> string" where
  "dec n = (if n < 10 then [char_of (48 + n)] else dec (n div 10) @ [char_of (48 + n mod 10)])"
  by pat_completeness auto
termination
  by (relation "measure id") auto

declare dec.simps [simp del]

definition str_int :: "int \<Rightarrow> string" where
  "str_int i = (if i < 0 then CHR ''-'' # dec (nat (- i)) else dec (nat i))"

text \<open>
  \<^verbatim>\<open>str.isspace\<close> on the code points below 256, and \<^verbatim>\<open>str.strip()\<close>, which removes the
  leading and the trailing run of such characters.
\<close>

definition isspace :: "char \<Rightarrow> bool" where
  "isspace c =
     (let n = (of_char c :: nat)
      in (9 \<le> n \<and> n \<le> 13) \<or> (28 \<le> n \<and> n \<le> 32) \<or> n = 133 \<or> n = 160)"

definition strip :: "string \<Rightarrow> string" where
  "strip s = rev (dropWhile isspace (rev (dropWhile isspace s)))"

text \<open>\<^verbatim>\<open>x.strip()\<close>: only a string has the method (no JSON value is \<^verbatim>\<open>bytes\<close>).\<close>

definition py_strip :: "pyval \<Rightarrow> exn + string" where
  "py_strip x = (case x of PStr s \<Rightarrow> Inr (strip s) | _ \<Rightarrow> Inl (attribute_error x ''strip''))"

text \<open>\<^verbatim>\<open>sep.join(xs)\<close> on strings.\<close>

fun join :: "string \<Rightarrow> string list \<Rightarrow> string" where
  "join sep [] = []"
| "join sep [x] = x"
| "join sep (x # y # ys) = x @ sep @ join sep (y # ys)"

text \<open>A loop body that may raise, run over a list: the first exception ends the loop.\<close>

fun traverse :: "('a \<Rightarrow> exn + 'b) \<Rightarrow> 'a list \<Rightarrow> exn + 'b list" where
  "traverse f [] = Inr []"
| "traverse f (x # xs) =
     (case f x of
        Inl e \<Rightarrow> Inl e
      | Inr y \<Rightarrow> (case traverse f xs of Inl e \<Rightarrow> Inl e | Inr ys \<Rightarrow> Inr (y # ys)))"


section \<open>The outside world\<close>

text \<open>
  An HTTP request as the program hands it to \<^verbatim>\<open>requests.get\<close> or \<^verbatim>\<open>requests.post\<close>, and
  what comes back: the call raises, or it returns a response with a status code, a
  body text and the outcome of \<^verbatim>\<open>response.json()\<close> (which raises on a malformed body).
\<close>

record request =
  url :: string
  headers :: "(string \<times> string) list"
  params :: "(string \<times> string) list"
  json_arg :: "pyval option"
  timeout :: "nat option"

record response =
  status_code :: int
  resp_text :: string
  json :: "exn + pyval"

text \<open>
  The document the program asks the document library to produce: the headings,
  tables, paragraphs and page breaks in the order of the calls, each table cell holding
  the value assigned to its \<^verbatim>\<open>text\<close>.
\<close>

datatype element =
    Heading string nat "nat option"
  | Table string "pyval list list"
  | Paragraph string
  | PageBreak

type_synonym document = "element list"

text \<open>
  The environment of a run: the configuration read at import time, the answers of the
  two HTTP services, whether the document library raises when it is driven to produce
  a given document at a given path, and \<^verbatim>\<open>str(v)\<close> for the values that are not strings
  (the interpreter's formatting of floats and containers is not part of this program).
\<close>

record env =
  JIRA_TOKEN :: string
  JQL :: string
  requests_get :: "request \<Rightarrow> exn + response"
  requests_post :: "request \<Rightarrow> exn + response"
  docx_raises :: "string \<Rightarrow> document \<Rightarrow> exn option"
  py_str :: "pyval \<Rightarrow> string"

text \<open>
  The state a run changes: the documents saved on disk, by path, and the log of the
  effects performed, oldest first. Console output is informational and left out. What
  a failing save leaves at its path is up to the library; the model leaves the path as
  it was.
\<close>

datatype effect =
    HttpGet request
  | HttpPost request
  | DocxWrite string document

record sys =
  files :: "string \<Rightarrow> document option"
  effects :: "effect list"

definition perform :: "effect \<Rightarrow> sys \<Rightarrow> sys" where
  "perform ef s = s\<lparr>effects := effects s @ [ef]\<rparr>"


section \<open>Issue Fetcher\<close>

definition fetch_request :: "env \<Rightarrow> string \<Rightarrow> request" where
  "fetch_request w project_name =
     \<lparr>url = ''https://tracker.nci.nih.gov/rest/api/2/search'',
      headers = [(''Authorization'', ''Bearer '' @ JIRA_TOKEN w),
                 (''Accept'', ''application/json'')],
      params = [(''jql'', ''project = '' @ [quote] @ project_name @ [quote] @ '' '' @ JQL w),
                (''fields'',
                 ''issuetype,key,summary,status,project,priority,assignee,reporter,description'')],
      json_arg = None,
      timeout = Some 30\<rparr>"

text \<open>The body of the \<^verbatim>\<open>try\<close> block, on the response received.\<close>

definition fetch_issues_try :: "env \<Rightarrow> string \<Rightarrow> exn + pyval" where
  "fetch_issues_try w project_name =
     bind_exn (requests_get w (fetch_request w project_name)) (\<lambda>response.
       if status_code response \<noteq> 200
       then Inl (OtherException (''JIRA API error: '' @ str_int (status_code response)
                                 @ '' - '' @ resp_text response))
       else
         bind_exn (json response) (\<lambda>data.
         bind_exn (py_get data ''issues'' (PList [])) (\<lambda>issues.
         bind_exn (py_len issues) (\<lambda>n.
         Inr issues))))"

text \<open>Both handlers return the empty list.\<close>

definition fetch_issues :: "env \<Rightarrow> string \<Rightarrow> sys \<Rightarrow> (exn + pyval) \<times> sys" where
  "fetch_issues w project_name s =
     (case fetch_issues_try w project_name of
        Inr issues \<Rightarrow> Inr issues
      | Inl (RequestException m) \<Rightarrow> Inr (PList [])
      | Inl (OtherException m) \<Rightarrow> Inr (PList []),
      perform (HttpGet (fetch_request w project_name)) s)"


section \<open>Summarizer\<close>

definition OLLAMA_URL :: string where
  "OLLAMA_URL = ''http://localhost:11434/api/generate''"

definition prompt :: "string \<Rightarrow> string" where
  "prompt text =
     ''You are a project manager assistant. Given a list of JIRA issues or tasks with the fields: ''
     @ ''Issue Type, Issue Key, Summary, and Status, create a concise and professional high level summary of planned ''
     @ ''or ongoing activities for the current or upcoming month. Do not list individual issues. Give a brief overview.''
     @ ''Here is the list of issues: '' @ text"

definition summarize_request :: "string \<Rightarrow> request" where
  "summarize_request text =
     \<lparr>url = OLLAMA_URL,
      headers = [(''Content-Type'', ''application/json'')],
      params = [],
      json_arg = Some (PDict [(''model'', PStr ''llama3''),
                              (''prompt'', PStr (prompt text)),
                              (''stream'', PBool False)]),
      timeout = None\<rparr>"

text \<open>
  The body of the \<^verbatim>\<open>try\<close> block. A status other than 200 is an early return of the
  error string, not an exception.
\<close>

definition summarize_try :: "env \<Rightarrow> string \<Rightarrow> exn + string" where
  "summarize_try w text =
     bind_exn (requests_post w (summarize_request text)) (\<lambda>response.
       if status_code response \<noteq> 200
       then Inr (''Error generating summary: '' @ resp_text response)
       else
         bind_exn (json response) (\<lambda>result.
         bind_exn (py_get result ''response'' (PDict [])) (\<lambda>summary.
         py_strip summary)))"

definition summarize_with_ollama :: "env \<Rightarrow> string \<Rightarrow> sys \<Rightarrow> (exn + string) \<times> sys" where
  "summarize_with_ollama w text s =
     (case summarize_try w text of
        Inr summary \<Rightarrow> Inr summary
      | Inl (RequestException m) \<Rightarrow> Inr (''Error connecting to Ollama: '' @ m)
      | Inl (OtherException m) \<Rightarrow> Inr (''Error generating summary: '' @ m),
      perform (HttpPost (summarize_request text)) s)"


section \<open>Report Builder\<close>

definition default_filename :: string where
  "default_filename = ''JIRA_Summary_Report.docx''"

definition header_row :: "pyval list" where
  "header_row = [PStr ''Issue Type'', PStr ''Issue key'', PStr ''Summary'', PStr ''Status'']"

text \<open>One table row per issue, its four cells set in column order.\<close>

definition issue_row :: "pydict \<Rightarrow> pyval list" where
  "issue_row issue =
     [dict_get issue ''issue type'' (PStr ''N/A''),
      dict_get issue ''issue key'' (PStr ''No summary''),
      dict_get issue ''summary'' (PStr ''No summary''),
      dict_get issue ''status'' (PStr ''No status'')]"

definition build_document :: "pydict list \<Rightarrow> string \<Rightarrow> string \<Rightarrow> document" where
  "build_document issues ai_summary project_name =
     [Heading (project_name @ '': Tasks completed or to be continued in the upcoming month.'')
              1 (Some 1),
      Table ''Table Grid'' (header_row # map issue_row issues),
      Heading ''Project Summary'' 2 None,
      Paragraph ai_summary,
      PageBreak]"

text \<open>
  The whole function is one \<^verbatim>\<open>try\<close> block whose handler logs the exception: the file
  is written when the library does not raise, and nothing is raised to the caller.
\<close>

definition generate_word_document ::
  "env \<Rightarrow> pydict list \<Rightarrow> string \<Rightarrow> string \<Rightarrow> string \<Rightarrow> sys \<Rightarrow> (exn + unit) \<times> sys" where
  "generate_word_document w issues ai_summary project_name filename s =
     (let doc = build_document issues ai_summary project_name;
          s' = perform (DocxWrite filename doc) s
      in case docx_raises w filename doc of
           None \<Rightarrow> (Inr (), s'\<lparr>files := (files s')(filename \<mapsto> doc)\<rparr>)
         | Some e \<Rightarrow> (Inr (), s'))"


section \<open>Orchestrator\<close>

text \<open>
  The body of the loop over the fetched issues. The progress line printed first calls
  \<^verbatim>\<open>issue.get('key', 'Unknown')\<close>, which raises when the issue is not a dict; the dict
  literal then evaluates its four values in order.
\<close>

definition issue_data :: "pyval \<Rightarrow> pyval \<Rightarrow> pyval \<Rightarrow> pyval \<Rightarrow> pydict" where
  "issue_data issue_type issue_key summary status_name =
     [(''issue type'', issue_type),
      (''issue key'', issue_key),
      (''summary'', summary),
      (''status'', status_name)]"

definition normalize_issue :: "pyval \<Rightarrow> exn + pydict" where
  "normalize_issue issue =
     bind_exn (py_get issue ''key'' (PStr ''Unknown'')) (\<lambda>shown.
     bind_exn (py_get issue ''fields'' (PDict [])) (\<lambda>fields.
     bind_exn (py_get fields ''issuetype'' (PStr ''Unknown'')) (\<lambda>issuetype.
     bind_exn (py_get issuetype ''name'' (PStr ''Unknown'')) (\<lambda>issue_type.
     bind_exn (py_get issue ''key'' (PStr ''No key'')) (\<lambda>issue_key.
     bind_exn (py_get fields ''summary'' (PStr ''No summary'')) (\<lambda>summary.
     bind_exn (py_get fields ''status'' (PDict [])) (\<lambda>status.
     bind_exn (py_get status ''name'' (PStr ''Unknown'')) (\<lambda>status_name.
     Inr (issue_data issue_type issue_key summary status_name)))))))))"

text \<open>\<^verbatim>\<open>d[k]\<close> raises KeyError on a missing key.\<close>

definition py_getitem :: "pydict \<Rightarrow> string \<Rightarrow> exn + pyval" where
  "py_getitem d k =
     (case map_of d k of
        Some v \<Rightarrow> Inr v
      | None \<Rightarrow> Inl (OtherException ([quote] @ k @ [quote])))"

text \<open>A value inside an f-string: a string as it is, any other value through \<^verbatim>\<open>str\<close>.\<close>

definition format_value :: "env \<Rightarrow> pyval \<Rightarrow> string" where
  "format_value w v = (case v of PStr s \<Rightarrow> s | _ \<Rightarrow> py_str w v)"

definition issue_line :: "env \<Rightarrow> pydict \<Rightarrow> exn + string" where
  "issue_line w issue =
     bind_exn (py_getitem issue ''issue key'') (\<lambda>k.
     bind_exn (py_getitem issue ''summary'') (\<lambda>sm.
     bind_exn (py_getitem issue ''status'') (\<lambda>st.
     Inr (''Issue Key: '' @ format_value w k @ '', Summary: '' @ format_value w sm
          @ '', Status: '' @ format_value w st))))"

definition issues_string :: "env \<Rightarrow> pydict list \<Rightarrow> exn + string" where
  "issues_string w issue_summaries =
     bind_exn (traverse (issue_line w) issue_summaries) (\<lambda>ls. Inr (join ''\<newline>'' ls))"

text \<open>
  \<^verbatim>\<open>run\<close>: fetch; leave when the result is falsy; normalize every issue; flatten;
  summarize; build the report under the default file name. An exception of the
  normalization loop is not handled here and leaves \<^verbatim>\<open>run\<close>.
\<close>

definition run :: "env \<Rightarrow> string \<Rightarrow> sys \<Rightarrow> (exn + unit) \<times> sys" where
  "run w project_name s =
     (case fetch_issues w project_name s of
        (Inl e, s1) \<Rightarrow> (Inl e, s1)
      | (Inr issues, s1) \<Rightarrow>
          if \<not> truthy issues then (Inr (), s1)
          else
            (case bind_exn (py_iter issues) (traverse normalize_issue) of
               Inl e \<Rightarrow> (Inl e, s1)
             | Inr issue_summaries \<Rightarrow>
                 (case issues_string w issue_summaries of
                    Inl e \<Rightarrow> (Inl e, s1)
                  | Inr text \<Rightarrow>
                      (case summarize_with_ollama w text s1 of
                         (Inl e, s2) \<Rightarrow> (Inl e, s2)
                       | (Inr ai_summary, s2) \<Rightarrow>
                           generate_word_document w issue_summaries ai_summary project_name
                             default_filename s2))))"


section \<open>Reading a final state\<close>

text \<open>
  The documents a run handed to the document library are the \<open>DocxWrite\<close> entries it
  added to the log; of a document, the claims look at its headings, its tables and its
  paragraphs.
\<close>

fun written_documents :: "effect list \<Rightarrow> document list" where
  "written_documents [] = []"
| "written_documents (DocxWrite f d # es) = d # written_documents es"
| "written_documents (e # es) = written_documents es"

definition new_effects :: "sys \<Rightarrow> sys \<Rightarrow> effect list" where
  "new_effects s s' = drop (length (effects s)) (effects s')"

fun headings :: "document \<Rightarrow> string list" where
  "headings [] = []"
| "headings (Heading t l a # es) = t # headings es"
| "headings (e # es) = headings es"

fun tables :: "document \<Rightarrow> pyval list list list" where
  "tables [] = []"
| "tables (Table st rows # es) = rows # tables es"
| "tables (e # es) = tables es"

fun paragraphs :: "document \<Rightarrow> string list" where
  "paragraphs [] = []"
| "paragraphs (Paragraph t # es) = t # paragraphs es"
| "paragraphs (e # es) = paragraphs es"


section \<open>Example inputs\<close>

text \<open>
  An environment whose two services answer every request in the same way, and whose
  document library fails or not; an empty disk with an empty log.
\<close>

definition world :: "(exn + response) \<Rightarrow> (exn + response) \<Rightarrow> exn option \<Rightarrow> env" where
  "world jira ollama lib =
     \<lparr>JIRA_TOKEN = ''secret'',
      JQL = ''AND status != Closed'',
      requests_get = (\<lambda>q. jira),
      requests_post = (\<lambda>q. ollama),
      docx_raises = (\<lambda>f d. lib),
      py_str = (\<lambda>v. ''?'')\<rparr>"

definition sys0 :: sys where
  "sys0 = \<lparr>files = Map.empty, effects = []\<rparr>"

definition answer :: "int \<Rightarrow> string \<Rightarrow> exn + pyval \<Rightarrow> exn + response" where
  "answer code body parsed = Inr \<lparr>status_code = code, resp_text = body, json = parsed\<rparr>"

definition raw_issue :: "string \<Rightarrow> (string \<times> pyval) list \<Rightarrow> pyval" where
  "raw_issue k fs = PDict [(''key'', PStr k), (''fields'', PDict fs)]"

definition issue1 :: pyval where
  "issue1 = raw_issue ''PROJ-1''
     [(''issuetype'', PDict [(''name'', PStr ''Bug'')]),
      (''summary'', PStr ''Fix crash''),
      (''status'', PDict [(''name'', PStr ''Open'')])]"

definition issue2 :: pyval where
  "issue2 = raw_issue ''PROJ-2''
     [(''issuetype'', PDict [(''name'', PStr ''Task'')]),
      (''summary'', PStr ''Write docs''),
      (''status'', PDict [(''name'', PStr ''Done'')])]"

definition issue_without_type :: pyval where
  "issue_without_type = raw_issue ''PROJ-3''
     [(''summary'', PStr ''Fix crash''),
      (''status'', PDict [(''name'', PStr ''Open'')])]"

definition issue_without_status :: pyval where
  "issue_without_status = raw_issue ''PROJ-4''
     [(''issuetype'', PDict [(''name'', PStr ''Bug'')]),
      (''summary'', PStr ''Fix crash'')]"

definition issue_bare :: pyval where
  "issue_bare = PDict [(''fields'', PDict [(''issuetype'', PDict [])])]"

definition normalized1 :: pydict where
  "normalized1 = issue_data (PStr ''Bug'') (PStr ''PROJ-1'') (PStr ''Fix crash'') (PStr ''Open'')"

definition normalized2 :: pydict where
  "normalized2 = issue_data (PStr ''Task'') (PStr ''PROJ-2'') (PStr ''Write docs'') (PStr ''Done'')"


section \<open>Normalization\<close>

text \<open>Whenever the loop body returns, what it returns has exactly the four fields.\<close>

lemma normalize_issue_shape:
  "normalize_issue x = Inr d \<Longrightarrow> \<exists>t k sm st. d = issue_data t k sm st"
  by (auto simp: normalize_issue_def bind_exn_def split: sum.splits)

text \<open>
  On an issue without \<open>issuetype\<close> the code calls \<open>get\<close> on the default string
  \<open>Unknown\<close>, where the line for the status uses the default \<open>{}\<close>: the loop body
  raises AttributeError, no record is built, and the exception leaves \<open>run\<close>.
\<close>

lemma normalize_issue_missing_issuetype_raises:
  "normalize_issue issue_without_type
     = Inl (OtherException ([quote] @ ''str'' @ [quote] @ '' object has no attribute ''
                            @ [quote] @ ''get'' @ [quote]))
   \<and> fst (run (world (answer 200 [] (Inr (PDict [(''issues'', PList [issue_without_type])])))
                    (answer 200 [] (Inr (PDict [(''response'', PStr ''All systems stable.'')])))
                    None)
             ''P'' sys0)
     = Inl (OtherException ([quote] @ ''str'' @ [quote] @ '' object has no attribute ''
                            @ [quote] @ ''get'' @ [quote]))"
  by (simp add: normalize_issue_def issue_without_type_def raw_issue_def
      bind_exn_def py_get_def dict_get_def attribute_error_def issue_data_def
      run_def fetch_issues_def fetch_issues_try_def world_def answer_def py_len_def py_iter_def)

text \<open>
  C1, as stated, fails: the normalization step is claimed to put \<open>No status\<close> in place
  of an absent status. On an issue whose \<open>fields\<close> block has no \<open>status\<close> the status
  field of the record is \<open>Unknown\<close>.
\<close>

theorem normalize_issue_status_default_counterexample:
  "normalize_issue issue_without_status
     = Inr (issue_data (PStr ''Bug'') (PStr ''PROJ-4'') (PStr ''Fix crash'') (PStr ''Unknown''))
   \<and> \<not> (\<exists>d. normalize_issue issue_without_status = Inr d
             \<and> map_of d ''status'' = Some (PStr ''No status''))"
  by (simp add: normalize_issue_def issue_without_status_def raw_issue_def bind_exn_def
      py_get_def dict_get_def issue_data_def)

text \<open>
  C1, amended. For a raw issue whose \<open>fields\<close> block carries an \<open>issuetype\<close> object
  (and a \<open>status\<close> object or none), and whose key, summary, type name and status name
  are strings where they are present, the normalization step gives a record of exactly
  four string fields: issue type, issue key, summary and status. A present value is
  taken as it is; in place of an absent one stands \<open>Unknown\<close> for the type name,
  \<open>No key\<close> for the key, \<open>No summary\<close> for the summary and \<open>Unknown\<close> for the status
  or its name.
\<close>

theorem normalize_issue_defaults:
  assumes "map_of issue ''fields'' = Some (PDict fs)"
    and "map_of fs ''issuetype'' = Some (PDict ty)"
    and "map_of fs ''status'' = None \<and> st = [] \<or> map_of fs ''status'' = Some (PDict st)"
    and "\<forall>x\<in>{map_of ty ''name'', map_of issue ''key'', map_of fs ''summary'', map_of st ''name''}.
           x = None \<or> (\<exists>v. x = Some (PStr v))"
  shows "\<exists>t k sm s.
           normalize_issue (PDict issue)
             = Inr [(''issue type'', PStr t), (''issue key'', PStr k),
                    (''summary'', PStr sm), (''status'', PStr s)]
           \<and> PStr t = dict_get ty ''name'' (PStr ''Unknown'')
           \<and> PStr k = dict_get issue ''key'' (PStr ''No key'')
           \<and> PStr sm = dict_get fs ''summary'' (PStr ''No summary'')
           \<and> PStr s = dict_get st ''name'' (PStr ''Unknown'')"
proof -
  have n: "normalize_issue (PDict issue)
             = Inr (issue_data (dict_get ty ''name'' (PStr ''Unknown''))
                               (dict_get issue ''key'' (PStr ''No key''))
                               (dict_get fs ''summary'' (PStr ''No summary''))
                               (dict_get st ''name'' (PStr ''Unknown'')))"
    using assms(1-3)
    by (auto simp: normalize_issue_def bind_exn_def py_get_def dict_get_def)
  have "\<exists>t. dict_get ty ''name'' (PStr ''Unknown'') = PStr t"
    and "\<exists>k. dict_get issue ''key'' (PStr ''No key'') = PStr k"
    and "\<exists>sm. dict_get fs ''summary'' (PStr ''No summary'') = PStr sm"
    and "\<exists>s. dict_get st ''name'' (PStr ''Unknown'') = PStr s"
    using assms(4) by (auto simp: dict_get_def)
  with n show ?thesis
    unfolding issue_data_def by metis
qed

theorem normalize_issue_defaults_witness:
  "normalize_issue issue_bare
     = Inr [(''issue type'', PStr ''Unknown''), (''issue key'', PStr ''No key''),
            (''summary'', PStr ''No summary''), (''status'', PStr ''Unknown'')]
   \<and> normalize_issue issue1
     = Inr [(''issue type'', PStr ''Bug''), (''issue key'', PStr ''PROJ-1''),
            (''summary'', PStr ''Fix crash''), (''status'', PStr ''Open'')]"
proof -
  have "normalize_issue issue_bare
     = Inr [(''issue type'', PStr ''Unknown''), (''issue key'', PStr ''No key''),
            (''summary'', PStr ''No summary''), (''status'', PStr ''Unknown'')]"
    using normalize_issue_defaults [of "[(''fields'', PDict [(''issuetype'', PDict [])])]"
        "[(''issuetype'', PDict [])]" "[]" "[]"]
    by (simp add: issue_bare_def dict_get_def)
  moreover have "normalize_issue issue1
     = Inr [(''issue type'', PStr ''Bug''), (''issue key'', PStr ''PROJ-1''),
            (''summary'', PStr ''Fix crash''), (''status'', PStr ''Open'')]"
    using normalize_issue_defaults [of
        "[(''key'', PStr ''PROJ-1''),
          (''fields'', PDict [(''issuetype'', PDict [(''name'', PStr ''Bug'')]),
                              (''summary'', PStr ''Fix crash''),
                              (''status'', PDict [(''name'', PStr ''Open'')])])]"
        "[(''issuetype'', PDict [(''name'', PStr ''Bug'')]),
          (''summary'', PStr ''Fix crash''),
          (''status'', PDict [(''name'', PStr ''Open'')])]"
        "[(''name'', PStr ''Bug'')]" "[(''name'', PStr ''Open'')]"]
    by (simp add: issue1_def raw_issue_def dict_get_def)
  ultimately show ?thesis by simp
qed


section \<open>Issue Fetcher: results\<close>

lemma fetch_issues_result:
  "fst (fetch_issues w p s) =
     (case fetch_issues_try w p of Inr issues \<Rightarrow> Inr issues | Inl e \<Rightarrow> Inr (PList []))"
  by (simp add: fetch_issues_def split: sum.split exn.split)

lemma fetch_issues_state:
  "snd (fetch_issues w p s) = perform (HttpGet (fetch_request w p)) s"
  by (simp add: fetch_issues_def)

text \<open>
  C2. On a response with status 200 whose JSON body is an object carrying an \<open>issues\<close>
  array, \<open>fetch_issues\<close> returns that array: the same elements in the same order. When
  the body has no \<open>issues\<close> key (an object without it, or a JSON value that is not an
  object), it returns the empty list.
\<close>

theorem fetch_issues_returns_issues_array:
  assumes "requests_get w (fetch_request w project_name) = Inr r"
    and "status_code r = 200"
    and "json r = Inr data"
  shows "(\<forall>body xs. data = PDict body \<and> map_of body ''issues'' = Some (PList xs)
            \<longrightarrow> fst (fetch_issues w project_name s) = Inr (PList xs))
       \<and> ((\<forall>body. data = PDict body \<longrightarrow> map_of body ''issues'' = None)
            \<longrightarrow> fst (fetch_issues w project_name s) = Inr (PList []))"
  using assms
  by (cases data)
     (auto simp: fetch_issues_result fetch_issues_try_def bind_exn_def py_get_def py_len_def
        dict_get_def split: sum.split)

theorem fetch_issues_returns_issues_array_witness:
  "fst (fetch_issues (world (answer 200 [] (Inr (PDict [(''total'', PInt 2),
                                                        (''issues'', PList [issue1, issue2])])))
                            (Inl (RequestException ''refused'')) None)
          ''P'' sys0) = Inr (PList [issue1, issue2])
   \<and> fst (fetch_issues (world (answer 200 [] (Inr (PDict [(''total'', PInt 0)])))
                            (Inl (RequestException ''refused'')) None)
          ''P'' sys0) = Inr (PList [])"
proof -
  let ?b1 = "[(''total'', PInt 2), (''issues'', PList [issue1, issue2])]"
  let ?b2 = "[(''total'', PInt 0)]"
  let ?r1 = "\<lparr>status_code = 200, resp_text = [], json = Inr (PDict ?b1)\<rparr>"
  let ?r2 = "\<lparr>status_code = 200, resp_text = [], json = Inr (PDict ?b2)\<rparr>"
  let ?w1 = "world (Inr ?r1) (Inl (RequestException ''refused'')) None"
  let ?w2 = "world (Inr ?r2) (Inl (RequestException ''refused'')) None"
  have g1: "requests_get ?w1 (fetch_request ?w1 ''P'') = Inr ?r1"
    and g2: "requests_get ?w2 (fetch_request ?w2 ''P'') = Inr ?r2"
    by (simp_all add: world_def)
  have "fst (fetch_issues ?w1 ''P'' sys0) = Inr (PList [issue1, issue2])"
    using fetch_issues_returns_issues_array [OF g1, of "PDict ?b1" sys0] by simp
  moreover have "fst (fetch_issues ?w2 ''P'' sys0) = Inr (PList [])"
    using fetch_issues_returns_issues_array [OF g2, of "PDict ?b2" sys0] by simp
  ultimately show ?thesis by (simp add: answer_def)
qed

text \<open>
  C3. When the request raises (a network failure or any other exception), when the
  status is not 200, when the body is malformed, or when anything else in the body of
  the \<open>try\<close> block raises, \<open>fetch_issues\<close> returns the empty list: the result is a
  value, not an exception.
\<close>

theorem fetch_issues_failure_returns_empty:
  assumes "(\<exists>e. requests_get w (fetch_request w project_name) = Inl e)
         \<or> (\<exists>r. requests_get w (fetch_request w project_name) = Inr r
                \<and> (status_code r \<noteq> 200 \<or> (\<exists>e. json r = Inl e)))
         \<or> (\<exists>e. fetch_issues_try w project_name = Inl e)"
  shows "fst (fetch_issues w project_name s) = Inr (PList [])"
proof -
  from assms have "\<exists>e. fetch_issues_try w project_name = Inl e"
    by (auto simp: fetch_issues_try_def bind_exn_def)
  then show ?thesis
    by (auto simp: fetch_issues_result)
qed

theorem fetch_issues_failure_returns_empty_witness:
  "fst (fetch_issues (world (Inl (RequestException ''connection refused''))
                            (Inl (RequestException ''refused'')) None)
          ''P'' sys0) = Inr (PList [])
   \<and> fst (fetch_issues (world (Inl (OtherException ''boom''))
                            (Inl (RequestException ''refused'')) None)
          ''P'' sys0) = Inr (PList [])
   \<and> fst (fetch_issues (world (answer 503 ''Service Unavailable''
                                   (Inr (PDict [(''issues'', PList [issue1])])))
                            (Inl (RequestException ''refused'')) None)
          ''P'' sys0) = Inr (PList [])
   \<and> fst (fetch_issues (world (answer 200 ''<html>'' (Inl (RequestException ''Expecting value'')))
                            (Inl (RequestException ''refused'')) None)
          ''P'' sys0) = Inr (PList [])
   \<and> fst (fetch_issues (world (answer 200 [] (Inr (PDict [(''issues'', PInt 5)])))
                            (Inl (RequestException ''refused'')) None)
          ''P'' sys0) = Inr (PList [])"
proof -
  let ?o = "Inl (RequestException ''refused'') :: exn + response"
  have "fst (fetch_issues (world (Inl (RequestException ''connection refused'')) ?o None) ''P'' sys0)
          = Inr (PList [])"
    by (rule fetch_issues_failure_returns_empty) (simp add: world_def)
  moreover have "fst (fetch_issues (world (Inl (OtherException ''boom'')) ?o None) ''P'' sys0)
          = Inr (PList [])"
    by (rule fetch_issues_failure_returns_empty) (simp add: world_def)
  moreover have "fst (fetch_issues (world (answer 503 ''Service Unavailable''
                   (Inr (PDict [(''issues'', PList [issue1])]))) ?o None) ''P'' sys0)
          = Inr (PList [])"
    by (rule fetch_issues_failure_returns_empty) (simp add: world_def answer_def)
  moreover have "fst (fetch_issues (world (answer 200 ''<html>''
                   (Inl (RequestException ''Expecting value''))) ?o None) ''P'' sys0)
          = Inr (PList [])"
    by (rule fetch_issues_failure_returns_empty) (simp add: world_def answer_def)
  moreover have "fst (fetch_issues (world (answer 200 [] (Inr (PDict [(''issues'', PInt 5)])))
                   ?o None) ''P'' sys0)
          = Inr (PList [])"
    by (rule fetch_issues_failure_returns_empty)
       (simp add: world_def answer_def fetch_issues_try_def bind_exn_def py_get_def dict_get_def
          py_len_def)
  ultimately show ?thesis by simp
qed


section \<open>Summarizer: results\<close>

lemma summarize_result:
  "fst (summarize_with_ollama w text s) =
     (case summarize_try w text of
        Inr summary \<Rightarrow> Inr summary
      | Inl (RequestException m) \<Rightarrow> Inr (''Error connecting to Ollama: '' @ m)
      | Inl (OtherException m) \<Rightarrow> Inr (''Error generating summary: '' @ m))"
  by (simp add: summarize_with_ollama_def)

lemma summarize_state:
  "snd (summarize_with_ollama w text s) = perform (HttpPost (summarize_request text)) s"
  by (simp add: summarize_with_ollama_def)

text \<open>What \<open>strip\<close> removes is a run of whitespace at each end, and nothing else.\<close>

lemma strip_decompose:
  "\<exists>l t. v = l @ strip v @ t \<and> (\<forall>c\<in>set l. isspace c) \<and> (\<forall>c\<in>set t. isspace c)"
proof -
  let ?u = "dropWhile isspace v"
  have "v = takeWhile isspace v @ ?u" by simp
  moreover have "?u = strip v @ rev (takeWhile isspace (rev ?u))"
    unfolding strip_def by (metis rev_append rev_rev_ident takeWhile_dropWhile_id)
  moreover have "\<forall>c\<in>set (takeWhile isspace v). isspace c"
    by (auto dest: set_takeWhileD)
  moreover have "\<forall>c\<in>set (rev (takeWhile isspace (rev ?u))). isspace c"
    by (auto dest: set_takeWhileD)
  ultimately show ?thesis by metis
qed

lemma strip_ends:
  assumes "strip v \<noteq> []"
  shows "\<not> isspace (hd (strip v)) \<and> \<not> isspace (last (strip v))"
proof -
  let ?u = "dropWhile isspace v"
  let ?d = "dropWhile isspace (rev ?u)"
  from assms have d: "?d \<noteq> []" by (simp add: strip_def)
  then have u: "?u \<noteq> []" by (metis dropWhile.simps(1) rev.simps(1))
  have "last (strip v) = hd ?d" unfolding strip_def by (rule last_rev)
  moreover have "\<not> isspace (hd ?d)" using d by (rule hd_dropWhile)
  moreover have "?u = strip v @ rev (takeWhile isspace (rev ?u))"
    unfolding strip_def by (metis rev_append rev_rev_ident takeWhile_dropWhile_id)
  then have "hd (strip v) = hd ?u" using assms by (metis hd_append2)
  moreover have "\<not> isspace (hd ?u)" using u by (rule hd_dropWhile)
  ultimately show ?thesis by simp
qed

text \<open>
  C4. On a response with status 200 whose JSON body is an object with a string
  \<open>response\<close> field, \<open>summarize_with_ollama\<close> returns that string stripped: the field's
  value without a leading and a trailing run of whitespace, whose first and last
  characters (if any are left) are not whitespace. For the body with \<open>response\<close> equal to
  \<open>text\<close> between two spaces the result is \<open>text\<close>.
\<close>

theorem summarize_returns_stripped_response:
  assumes "requests_post w (summarize_request text) = Inr r"
    and "status_code r = 200"
    and "json r = Inr (PDict body)"
    and "map_of body ''response'' = Some (PStr v)"
  shows "fst (summarize_with_ollama w text s) = Inr (strip v)
       \<and> (\<exists>l t. v = l @ strip v @ t \<and> (\<forall>c\<in>set l. isspace c) \<and> (\<forall>c\<in>set t. isspace c))
       \<and> (strip v \<noteq> [] \<longrightarrow> \<not> isspace (hd (strip v)) \<and> \<not> isspace (last (strip v)))"
proof -
  have "summarize_try w text = Inr (strip v)"
    using assms
    by (simp add: summarize_try_def bind_exn_def py_get_def dict_get_def py_strip_def)
  then have "fst (summarize_with_ollama w text s) = Inr (strip v)"
    by (simp add: summarize_result)
  then show ?thesis
    using strip_decompose [of v] strip_ends [of v] by blast
qed

theorem summarize_returns_stripped_response_witness:
  "fst (summarize_with_ollama
          (world (Inl (RequestException ''refused''))
                 (answer 200 [] (Inr (PDict [(''response'', PStr '' text '')]))) None)
          ''Issue Key: PROJ-1, Summary: Fix crash, Status: Open'' sys0)
     = Inr ''text''"
proof -
  let ?body = "[(''response'', PStr '' text '')]"
  let ?r = "\<lparr>status_code = 200, resp_text = [], json = Inr (PDict ?body)\<rparr>"
  let ?w = "world (Inl (RequestException ''refused'')) (Inr ?r) None"
  let ?t = "''Issue Key: PROJ-1, Summary: Fix crash, Status: Open''"
  have p: "requests_post ?w (summarize_request ?t) = Inr ?r"
    by (simp add: world_def)
  have "strip '' text '' = ''text''"
    by (simp add: strip_def isspace_def)
  then show ?thesis
    using summarize_returns_stripped_response [OF p, of ?body "'' text ''" sys0]
    by (simp add: answer_def)
qed


text \<open>
  C5. \<open>summarize_with_ollama\<close> never raises: its result is always a string. On a status
  other than 200 the string is \<open>Error generating summary: \<close> followed by the body text
  of the response; when the body of the \<open>try\<close> block raises (the request itself on a
  network failure or any other exception, or the decoding of a malformed body), it is
  \<open>Error connecting to Ollama: \<close> or \<open>Error generating summary: \<close> followed by the
  exception's message.
\<close>

theorem summarize_never_raises:
  "(\<exists>msg. fst (summarize_with_ollama w text s) = Inr msg)
   \<and> (\<forall>r. requests_post w (summarize_request text) = Inr r \<and> status_code r \<noteq> 200
          \<longrightarrow> fst (summarize_with_ollama w text s)
                = Inr (''Error generating summary: '' @ resp_text r))
   \<and> (\<forall>m. summarize_try w text = Inl (RequestException m)
          \<longrightarrow> fst (summarize_with_ollama w text s) = Inr (''Error connecting to Ollama: '' @ m))
   \<and> (\<forall>m. summarize_try w text = Inl (OtherException m)
          \<longrightarrow> fst (summarize_with_ollama w text s) = Inr (''Error generating summary: '' @ m))
   \<and> (\<forall>e. requests_post w (summarize_request text) = Inl e \<longrightarrow> summarize_try w text = Inl e)
   \<and> (\<forall>r e. requests_post w (summarize_request text) = Inr r \<and> status_code r = 200
            \<and> json r = Inl e \<longrightarrow> summarize_try w text = Inl e)"
proof -
  have "\<exists>msg. fst (summarize_with_ollama w text s) = Inr msg"
    by (simp add: summarize_result split: sum.split exn.split)
  moreover have "\<forall>r. requests_post w (summarize_request text) = Inr r \<and> status_code r \<noteq> 200
          \<longrightarrow> fst (summarize_with_ollama w text s)
                = Inr (''Error generating summary: '' @ resp_text r)"
    by (simp add: summarize_result summarize_try_def bind_exn_def)
  moreover have "\<forall>m. summarize_try w text = Inl (RequestException m)
          \<longrightarrow> fst (summarize_with_ollama w text s) = Inr (''Error connecting to Ollama: '' @ m)"
    by (simp add: summarize_result)
  moreover have "\<forall>m. summarize_try w text = Inl (OtherException m)
          \<longrightarrow> fst (summarize_with_ollama w text s) = Inr (''Error generating summary: '' @ m)"
    by (simp add: summarize_result)
  moreover have "\<forall>e. requests_post w (summarize_request text) = Inl e
          \<longrightarrow> summarize_try w text = Inl e"
    by (simp add: summarize_try_def bind_exn_def)
  moreover have "\<forall>r e. requests_post w (summarize_request text) = Inr r \<and> status_code r = 200
            \<and> json r = Inl e \<longrightarrow> summarize_try w text = Inl e"
    by (simp add: summarize_try_def bind_exn_def)
  ultimately show ?thesis by blast
qed

theorem summarize_never_raises_witness:
  "fst (summarize_with_ollama
          (world (Inl (RequestException ''refused''))
                 (answer 500 ''model not found'' (Inl (OtherException ''Expecting value''))) None)
          ''Issue Key: PROJ-1, Summary: Fix crash, Status: Open'' sys0)
     = Inr ''Error generating summary: model not found''
   \<and> fst (summarize_with_ollama
          (world (Inl (RequestException ''refused''))
                 (Inl (RequestException ''Connection refused'')) None)
          ''Issue Key: PROJ-1, Summary: Fix crash, Status: Open'' sys0)
     = Inr ''Error connecting to Ollama: Connection refused''
   \<and> fst (summarize_with_ollama
          (world (Inl (RequestException ''refused''))
                 (answer 200 ''<html>'' (Inl (OtherException ''Expecting value''))) None)
          ''Issue Key: PROJ-1, Summary: Fix crash, Status: Open'' sys0)
     = Inr ''Error generating summary: Expecting value''"
proof -
  let ?g = "Inl (RequestException ''refused'') :: exn + response"
  let ?t = "''Issue Key: PROJ-1, Summary: Fix crash, Status: Open''"
  let ?r1 = "\<lparr>status_code = 500, resp_text = ''model not found'',
              json = Inl (OtherException ''Expecting value'')\<rparr>"
  let ?r3 = "\<lparr>status_code = 200, resp_text = ''<html>'',
              json = Inl (OtherException ''Expecting value'')\<rparr>"
  let ?w1 = "world ?g (Inr ?r1) None"
  let ?w2 = "world ?g (Inl (RequestException ''Connection refused'')) None"
  let ?w3 = "world ?g (Inr ?r3) None"
  have "fst (summarize_with_ollama ?w1 ?t sys0) = Inr ''Error generating summary: model not found''"
    using summarize_never_raises [of ?w1 ?t sys0] by (simp add: world_def)
  moreover have "fst (summarize_with_ollama ?w2 ?t sys0)
                   = Inr ''Error connecting to Ollama: Connection refused''"
    using summarize_never_raises [of ?w2 ?t sys0] by (simp add: world_def)
  moreover have "fst (summarize_with_ollama ?w3 ?t sys0)
                   = Inr ''Error generating summary: Expecting value''"
    using summarize_never_raises [of ?w3 ?t sys0] by (simp add: world_def)
  ultimately show ?thesis by (simp add: answer_def)
qed

text \<open>
  C10. On a response with status 200 whose JSON body has no \<open>response\<close> field, the
  result is a string that begins with \<open>Error generating summary:\<close>. For a body that is
  an object, the fallback value is the empty dict, whose \<open>strip\<close> raises
  AttributeError; the second handler turns the exception into the error string.
\<close>

theorem summarize_missing_response_field:
  assumes "requests_post w (summarize_request text) = Inr r"
    and "status_code r = 200"
    and "json r = Inr data"
    and "\<forall>body. data = PDict body \<longrightarrow> map_of body ''response'' = None"
  shows "(\<exists>m. fst (summarize_with_ollama w text s) = Inr (''Error generating summary: '' @ m))
       \<and> (\<forall>body. data = PDict body \<longrightarrow>
            summarize_try w text = Inl (attribute_error (PDict []) ''strip'')
            \<and> fst (summarize_with_ollama w text s)
                = Inr (''Error generating summary: '' @ [quote] @ ''dict'' @ [quote]
                       @ '' object has no attribute '' @ [quote] @ ''strip'' @ [quote]))"
proof (cases data)
  case (PDict body)
  with assms have "map_of body ''response'' = None" by simp
  with assms PDict have t: "summarize_try w text = Inl (attribute_error (PDict []) ''strip'')"
    by (simp add: summarize_try_def bind_exn_def py_get_def dict_get_def py_strip_def)
  then show ?thesis
    using PDict by (simp add: summarize_result attribute_error_def)
qed (use assms in \<open>simp_all add: summarize_result summarize_try_def bind_exn_def py_get_def
      attribute_error_def\<close>)

theorem summarize_missing_response_field_witness:
  "fst (summarize_with_ollama
          (world (Inl (RequestException ''refused''))
                 (answer 200 [] (Inr (PDict [(''model'', PStr ''llama3''), (''done'', PBool True)])))
                 None)
          ''Issue Key: PROJ-1, Summary: Fix crash, Status: Open'' sys0)
     = Inr (''Error generating summary: '' @ [quote] @ ''dict'' @ [quote]
            @ '' object has no attribute '' @ [quote] @ ''strip'' @ [quote])"
proof -
  let ?body = "[(''model'', PStr ''llama3''), (''done'', PBool True)]"
  let ?r = "\<lparr>status_code = 200, resp_text = [], json = Inr (PDict ?body)\<rparr>"
  let ?w = "world (Inl (RequestException ''refused'')) (Inr ?r) None"
  let ?t = "''Issue Key: PROJ-1, Summary: Fix crash, Status: Open''"
  have p: "requests_post ?w (summarize_request ?t) = Inr ?r"
    by (simp add: world_def)
  show ?thesis
    using summarize_missing_response_field [OF p, of "PDict ?body" sys0]
    by (simp add: answer_def)
qed


section \<open>Report Builder: results\<close>

lemma new_effects_perform:
  "new_effects s (perform e s) = [e]"
  by (simp add: new_effects_def perform_def)

lemma tables_build_document:
  "tables (build_document issues ai_summary project_name) = [header_row # map issue_row issues]"
  by (simp add: build_document_def)

lemma paragraphs_build_document:
  "paragraphs (build_document issues ai_summary project_name) = [ai_summary]"
  by (simp add: build_document_def)

lemma headings_build_document:
  "headings (build_document issues ai_summary project_name) =
     [project_name @ '': Tasks completed or to be continued in the upcoming month.'',
      ''Project Summary'']"
  by (simp add: build_document_def)

lemma generate_word_document_result:
  "fst (generate_word_document w issues ai_summary project_name filename s) = Inr ()"
  by (simp add: generate_word_document_def Let_def split: option.split)

lemma generate_word_document_effects:
  "effects (snd (generate_word_document w issues ai_summary project_name filename s)) =
     effects s @ [DocxWrite filename (build_document issues ai_summary project_name)]"
  by (simp add: generate_word_document_def Let_def perform_def split: option.split)

lemma generate_word_document_files:
  "files (snd (generate_word_document w issues ai_summary project_name filename s)) =
     (case docx_raises w filename (build_document issues ai_summary project_name) of
        None \<Rightarrow> (files s)(filename \<mapsto> build_document issues ai_summary project_name)
      | Some e \<Rightarrow> files s)"
  by (simp add: generate_word_document_def Let_def perform_def split: option.split)

text \<open>
  C6. For a list of \<open>N\<close> normalized issues (each with its four string fields), the
  document built has as its first heading the project name followed by
  \<open>: Tasks completed or to be continued in the upcoming month.\<close>, and one table of
  \<open>N + 1\<close> rows: row 0 is the header, row \<open>i + 1\<close> holds the issue type, issue key,
  summary and status of issue \<open>i\<close>, in that column order. The call returns normally,
  hands this document to the library, and when the library does not raise the file at
  the given path is this document.
\<close>

theorem generate_word_document_contents:
  assumes "\<forall>issue\<in>set issues. \<forall>k\<in>set [''issue type'', ''issue key'', ''summary'', ''status''].
             \<exists>v. map_of issue k = Some (PStr v)"
  shows "hd (headings (build_document issues ai_summary project_name))
           = project_name @ '': Tasks completed or to be continued in the upcoming month.''
       \<and> (\<exists>rows. tables (build_document issues ai_summary project_name) = [rows]
             \<and> length rows = length issues + 1
             \<and> rows ! 0 = map PStr [''Issue Type'', ''Issue key'', ''Summary'', ''Status'']
             \<and> (\<forall>i<length issues.
                   map Some (rows ! (i + 1))
                     = map (map_of (issues ! i))
                         [''issue type'', ''issue key'', ''summary'', ''status'']))
       \<and> fst (generate_word_document w issues ai_summary project_name filename s) = Inr ()
       \<and> new_effects s (snd (generate_word_document w issues ai_summary project_name filename s))
           = [DocxWrite filename (build_document issues ai_summary project_name)]
       \<and> (docx_raises w filename (build_document issues ai_summary project_name) = None
            \<longrightarrow> files (snd (generate_word_document w issues ai_summary project_name filename s))
                  filename
                = Some (build_document issues ai_summary project_name))"
proof -
  let ?rows = "header_row # map issue_row issues"
  have row: "map Some (issue_row d) = map (map_of d) [''issue type'', ''issue key'', ''summary'', ''status'']"
    if "d \<in> set issues" for d
    using assms that by (fastforce simp: issue_row_def dict_get_def)
  have "\<forall>i<length issues. map Some (?rows ! (i + 1))
          = map (map_of (issues ! i)) [''issue type'', ''issue key'', ''summary'', ''status'']"
    using row by simp
  moreover have "length ?rows = length issues + 1" by simp
  moreover have "?rows ! 0 = map PStr [''Issue Type'', ''Issue key'', ''Summary'', ''Status'']"
    by (simp add: header_row_def)
  ultimately have "\<exists>rows. tables (build_document issues ai_summary project_name) = [rows]
             \<and> length rows = length issues + 1
             \<and> rows ! 0 = map PStr [''Issue Type'', ''Issue key'', ''Summary'', ''Status'']
             \<and> (\<forall>i<length issues.
                   map Some (rows ! (i + 1))
                     = map (map_of (issues ! i))
                         [''issue type'', ''issue key'', ''summary'', ''status''])"
    unfolding tables_build_document by blast
  moreover have "new_effects s (snd (generate_word_document w issues ai_summary project_name filename s))
           = [DocxWrite filename (build_document issues ai_summary project_name)]"
    by (simp add: new_effects_def generate_word_document_effects)
  ultimately show ?thesis
    by (simp add: headings_build_document generate_word_document_result
        generate_word_document_files)
qed

theorem generate_word_document_contents_witness:
  "tables (build_document [normalized1, normalized2] ''All systems stable.'' ''Index of NCI Studies'')
     = [[map PStr [''Issue Type'', ''Issue key'', ''Summary'', ''Status''],
         map PStr [''Bug'', ''PROJ-1'', ''Fix crash'', ''Open''],
         map PStr [''Task'', ''PROJ-2'', ''Write docs'', ''Done'']]]
   \<and> hd (headings (build_document [normalized1, normalized2] ''All systems stable.''
                      ''Index of NCI Studies''))
     = ''Index of NCI Studies: Tasks completed or to be continued in the upcoming month.''
   \<and> files (snd (generate_word_document
                    (world (Inl (RequestException ''refused'')) (Inl (RequestException ''refused''))
                           None)
                    [normalized1, normalized2] ''All systems stable.'' ''Index of NCI Studies''
                    default_filename sys0))
           default_filename
     = Some (build_document [normalized1, normalized2] ''All systems stable.''
               ''Index of NCI Studies'')"
proof -
  let ?is = "[normalized1, normalized2]"
  let ?w = "world (Inl (RequestException ''refused'')) (Inl (RequestException ''refused'')) None"
  let ?doc = "build_document ?is ''All systems stable.'' ''Index of NCI Studies''"
  have h: "\<forall>issue\<in>set ?is. \<forall>k\<in>set [''issue type'', ''issue key'', ''summary'', ''status''].
             \<exists>v. map_of issue k = Some (PStr v)"
    by (simp add: normalized1_def normalized2_def issue_data_def)
  have lib: "docx_raises ?w default_filename ?doc = None"
    by (simp add: world_def)
  note c = generate_word_document_contents [OF h, of "''All systems stable.''"
      "''Index of NCI Studies''" ?w default_filename sys0]
  have "tables ?doc = [[map PStr [''Issue Type'', ''Issue key'', ''Summary'', ''Status''],
         map PStr [''Bug'', ''PROJ-1'', ''Fix crash'', ''Open''],
         map PStr [''Task'', ''PROJ-2'', ''Write docs'', ''Done'']]]"
    by (simp add: build_document_def header_row_def issue_row_def dict_get_def
        normalized1_def normalized2_def issue_data_def)
  moreover from c lib have "files (snd (generate_word_document ?w ?is ''All systems stable.''
        ''Index of NCI Studies'' default_filename sys0)) default_filename = Some ?doc"
    by blast
  moreover from c have "hd (headings ?doc)
     = ''Index of NCI Studies: Tasks completed or to be continued in the upcoming month.''"
    by simp
  ultimately show ?thesis by blast
qed


section \<open>Orchestrator: results\<close>

text \<open>
  C7. When the fetch step returns the empty list, \<open>run\<close> returns normally, the files
  on disk are as before, and the only effect of the run is the search request: the
  summarizer is not called (no POST) and the report builder is not called (no document
  written).
\<close>

theorem run_empty_fetch_no_report:
  assumes "fst (fetch_issues w project_name s) = Inr (PList [])"
  shows "fst (run w project_name s) = Inr ()
       \<and> files (snd (run w project_name s)) = files s
       \<and> new_effects s (snd (run w project_name s)) = [HttpGet (fetch_request w project_name)]"
proof -
  have "fetch_issues w project_name s
          = (Inr (PList []), perform (HttpGet (fetch_request w project_name)) s)"
    using assms fetch_issues_state [of w project_name s]
    by (metis prod.collapse)
  then have "run w project_name s = (Inr (), perform (HttpGet (fetch_request w project_name)) s)"
    by (simp add: run_def)
  then show ?thesis
    by (simp add: new_effects_perform) (simp add: perform_def)
qed

theorem run_empty_fetch_no_report_witness:
  "fst (run (world (answer 200 [] (Inr (PDict [(''issues'', PList [])])))
                   (answer 200 [] (Inr (PDict [(''response'', PStr ''All systems stable.'')])))
                   None)
            ''P'' \<lparr>files = [default_filename \<mapsto> [PageBreak]], effects = []\<rparr>) = Inr ()
   \<and> files (snd (run (world (answer 200 [] (Inr (PDict [(''issues'', PList [])])))
                   (answer 200 [] (Inr (PDict [(''response'', PStr ''All systems stable.'')])))
                   None)
            ''P'' \<lparr>files = [default_filename \<mapsto> [PageBreak]], effects = []\<rparr>))
       default_filename = Some [PageBreak]
   \<and> effects (snd (run (world (answer 200 [] (Inr (PDict [(''issues'', PList [])])))
                   (answer 200 [] (Inr (PDict [(''response'', PStr ''All systems stable.'')])))
                   None)
            ''P'' \<lparr>files = [default_filename \<mapsto> [PageBreak]], effects = []\<rparr>))
       = [HttpGet (fetch_request (world (answer 200 [] (Inr (PDict [(''issues'', PList [])])))
                   (answer 200 [] (Inr (PDict [(''response'', PStr ''All systems stable.'')])))
                   None) ''P'')]"
proof -
  let ?w = "world (answer 200 [] (Inr (PDict [(''issues'', PList [])])))
                   (answer 200 [] (Inr (PDict [(''response'', PStr ''All systems stable.'')])))
                   None"
  let ?s = "\<lparr>files = [default_filename \<mapsto> [PageBreak]], effects = []\<rparr>"
  have f: "fst (fetch_issues ?w ''P'' ?s) = Inr (PList [])"
    by (simp add: fetch_issues_result fetch_issues_try_def world_def answer_def bind_exn_def
        py_get_def dict_get_def py_len_def)
  show ?thesis
    using run_empty_fetch_no_report [OF f] by (simp add: new_effects_def)
qed

lemma traverse_map_total:
  assumes "\<And>x. x \<in> set xs \<Longrightarrow> f (h x) = Inr (g x)"
  shows "traverse f (map h xs) = Inr (map g xs)"
  using assms by (induction xs) auto

lemma issue_line_issue_data:
  "issue_line w (issue_data t (PStr k) (PStr sm) (PStr st))
     = Inr (''Issue Key: '' @ k @ '', Summary: '' @ sm @ '', Status: '' @ st)"
  by (simp add: issue_line_def issue_data_def py_getitem_def bind_exn_def format_value_def)

lemma issues_string_issue_data:
  "issues_string w (map (\<lambda>(t, k, sm, st). issue_data t (PStr k) (PStr sm) (PStr st)) qs)
     = Inr (join ''\<newline>''
         (map (\<lambda>(t, k, sm, st). ''Issue Key: '' @ k @ '', Summary: '' @ sm @ '', Status: '' @ st) qs))"
proof -
  have "traverse (issue_line w) (map (\<lambda>(t, k, sm, st). issue_data t (PStr k) (PStr sm) (PStr st)) qs)
      = Inr (map (\<lambda>(t, k, sm, st). ''Issue Key: '' @ k @ '', Summary: '' @ sm @ '', Status: '' @ st) qs)"
    by (rule traverse_map_total) (auto simp: issue_line_issue_data)
  then show ?thesis
    by (simp add: issues_string_def bind_exn_def)
qed

text \<open>
  C8. When the normalization loop yields issues whose key, summary and status are
  strings, the text \<open>run\<close> passes to the summarizer (the one request it posts) is the
  lines \<open>Issue Key: k, Summary: sm, Status: st\<close>, one per issue in input order, joined
  by newlines. The issue type \<open>t\<close> of an issue, whatever it is, is not part of the text.
\<close>

theorem run_summarizer_text:
  assumes "fst (fetch_issues w project_name s) = Inr issues"
    and "truthy issues"
    and "bind_exn (py_iter issues) (traverse normalize_issue)
           = Inr (map (\<lambda>(t, k, sm, st). issue_data t (PStr k) (PStr sm) (PStr st)) qs)"
  shows "\<exists>doc. new_effects s (snd (run w project_name s)) =
           [HttpGet (fetch_request w project_name),
            HttpPost (summarize_request (join ''\<newline>''
              (map (\<lambda>(t, k, sm, st). ''Issue Key: '' @ k @ '', Summary: '' @ sm @ '', Status: '' @ st)
                 qs))),
            DocxWrite default_filename doc]"
proof -
  have "fetch_issues w project_name s
          = (Inr issues, perform (HttpGet (fetch_request w project_name)) s)"
    using assms(1) fetch_issues_state [of w project_name s]
    by (metis prod.collapse)
  then show ?thesis
    using assms(2,3)
    by (simp add: run_def issues_string_issue_data summarize_with_ollama_def
        generate_word_document_def Let_def perform_def new_effects_def
        split: sum.split exn.split option.split)
qed

theorem run_summarizer_text_witness:
  "\<exists>doc. effects (snd (run (world (answer 200 [] (Inr (PDict [(''issues'', PList [issue1, issue2])])))
                               (answer 200 [] (Inr (PDict [(''response'', PStr ''All systems stable.'')])))
                               None)
                        ''P'' sys0)) =
      [HttpGet (fetch_request
                  (world (answer 200 [] (Inr (PDict [(''issues'', PList [issue1, issue2])])))
                         (answer 200 [] (Inr (PDict [(''response'', PStr ''All systems stable.'')])))
                         None) ''P''),
       HttpPost (summarize_request
                   (''Issue Key: PROJ-1, Summary: Fix crash, Status: Open'' @ ''\<newline>''
                    @ ''Issue Key: PROJ-2, Summary: Write docs, Status: Done'')),
       DocxWrite default_filename doc]"
proof -
  let ?w = "world (answer 200 [] (Inr (PDict [(''issues'', PList [issue1, issue2])])))
                  (answer 200 [] (Inr (PDict [(''response'', PStr ''All systems stable.'')])))
                  None"
  let ?qs = "[(PStr ''Bug'', ''PROJ-1'', ''Fix crash'', ''Open''),
              (PStr ''Task'', ''PROJ-2'', ''Write docs'', ''Done'')]"
  have f: "fst (fetch_issues ?w ''P'' sys0) = Inr (PList [issue1, issue2])"
    by (simp add: fetch_issues_result fetch_issues_try_def world_def answer_def bind_exn_def
        py_get_def dict_get_def py_len_def)
  have t: "truthy (PList [issue1, issue2])"
    by simp
  have n: "bind_exn (py_iter (PList [issue1, issue2])) (traverse normalize_issue)
             = Inr (map (\<lambda>(t, k, sm, st). issue_data t (PStr k) (PStr sm) (PStr st)) ?qs)"
    by (simp add: py_iter_def bind_exn_def normalize_issue_def issue1_def issue2_def raw_issue_def
        py_get_def dict_get_def)
  show ?thesis
    using run_summarizer_text [OF f t n] by (simp add: new_effects_def sys0_def)
qed

text \<open>
  What a run returns and which documents it hands to the library, by the outcome of
  each step.
\<close>

lemma run_written_documents:
  "fst (run w p s) =
     (case fetch_issues_try w p of
        Inl e \<Rightarrow> Inr ()
      | Inr issues \<Rightarrow>
          if \<not> truthy issues then Inr ()
          else (case bind_exn (py_iter issues) (traverse normalize_issue) of
                  Inl e \<Rightarrow> Inl e
                | Inr ds \<Rightarrow> (case issues_string w ds of Inl e \<Rightarrow> Inl e | Inr text \<Rightarrow> Inr ())))
   \<and> written_documents (new_effects s (snd (run w p s))) =
     (case fetch_issues_try w p of
        Inl e \<Rightarrow> []
      | Inr issues \<Rightarrow>
          if \<not> truthy issues then []
          else (case bind_exn (py_iter issues) (traverse normalize_issue) of
                  Inl e \<Rightarrow> []
                | Inr ds \<Rightarrow>
                    (case issues_string w ds of
                       Inl e \<Rightarrow> []
                     | Inr text \<Rightarrow>
                         (case summarize_try w text of
                            Inr summary \<Rightarrow> [build_document ds summary p]
                          | Inl (RequestException m) \<Rightarrow>
                              [build_document ds (''Error connecting to Ollama: '' @ m) p]
                          | Inl (OtherException m) \<Rightarrow>
                              [build_document ds (''Error generating summary: '' @ m) p]))))"
  by (auto simp add: run_def fetch_issues_def summarize_with_ollama_def generate_word_document_def
      Let_def perform_def new_effects_def split: sum.split exn.split option.split)

text \<open>
  C9. Two runs that receive the same answer to the search request and the same answers
  to the summarize request (under the same \<open>str\<close> of the interpreter) end in the same
  way and hand over documents with the same tables and the same paragraphs, whatever
  their project names, their files on disk and the behaviour of the document library.
\<close>

theorem run_deterministic:
  assumes "requests_get w1 (fetch_request w1 p1) = requests_get w2 (fetch_request w2 p2)"
    and "\<forall>text. requests_post w1 (summarize_request text) = requests_post w2 (summarize_request text)"
    and "py_str w1 = py_str w2"
  shows "fst (run w1 p1 s1) = fst (run w2 p2 s2)
       \<and> map tables (written_documents (new_effects s1 (snd (run w1 p1 s1))))
           = map tables (written_documents (new_effects s2 (snd (run w2 p2 s2))))
       \<and> map paragraphs (written_documents (new_effects s1 (snd (run w1 p1 s1))))
           = map paragraphs (written_documents (new_effects s2 (snd (run w2 p2 s2))))"
proof -
  have A: "fetch_issues_try w1 p1 = fetch_issues_try w2 p2"
    by (simp add: fetch_issues_try_def assms(1))
  have "format_value w1 = format_value w2"
    by (rule ext) (simp add: format_value_def assms(3) split: pyval.split)
  then have "issue_line w1 = issue_line w2"
    by (intro ext) (simp add: issue_line_def)
  then have B: "issues_string w1 = issues_string w2"
    by (intro ext) (simp add: issues_string_def)
  have C: "summarize_try w1 = summarize_try w2"
    by (rule ext) (simp add: summarize_try_def assms(2))
  show ?thesis
    unfolding run_written_documents [THEN conjunct1] run_written_documents [THEN conjunct2] A B C
    by (simp add: tables_build_document paragraphs_build_document
        split: sum.split exn.split)
qed

theorem run_deterministic_witness:
  "map tables (written_documents (new_effects sys0
      (snd (run (world (answer 200 [] (Inr (PDict [(''issues'', PList [issue1, issue2])])))
                       (answer 200 [] (Inr (PDict [(''response'', PStr ''All systems stable.'')])))
                       None)
                ''A'' sys0))))
   = map tables (written_documents (new_effects \<lparr>files = [default_filename \<mapsto> [PageBreak]], effects = []\<rparr>
      (snd (run (world (answer 200 [] (Inr (PDict [(''issues'', PList [issue1, issue2])])))
                       (answer 200 [] (Inr (PDict [(''response'', PStr ''All systems stable.'')])))
                       (Some (OtherException ''disk full'')))
                ''B'' \<lparr>files = [default_filename \<mapsto> [PageBreak]], effects = []\<rparr>))))
   \<and> map paragraphs (written_documents (new_effects sys0
      (snd (run (world (answer 200 [] (Inr (PDict [(''issues'', PList [issue1, issue2])])))
                       (answer 200 [] (Inr (PDict [(''response'', PStr ''All systems stable.'')])))
                       None)
                ''A'' sys0))))
   = map paragraphs (written_documents (new_effects \<lparr>files = [default_filename \<mapsto> [PageBreak]], effects = []\<rparr>
      (snd (run (world (answer 200 [] (Inr (PDict [(''issues'', PList [issue1, issue2])])))
                       (answer 200 [] (Inr (PDict [(''response'', PStr ''All systems stable.'')])))
                       (Some (OtherException ''disk full'')))
                ''B'' \<lparr>files = [default_filename \<mapsto> [PageBreak]], effects = []\<rparr>))))
   \<and> map paragraphs (written_documents (new_effects sys0
      (snd (run (world (answer 200 [] (Inr (PDict [(''issues'', PList [issue1, issue2])])))
                       (answer 200 [] (Inr (PDict [(''response'', PStr ''All systems stable.'')])))
                       None)
                ''A'' sys0))))
   = [[''All systems stable.'']]"
proof -
  let ?j = "answer 200 [] (Inr (PDict [(''issues'', PList [issue1, issue2])]))"
  let ?o = "answer 200 [] (Inr (PDict [(''response'', PStr ''All systems stable.'')]))"
  let ?w1 = "world ?j ?o None"
  let ?w2 = "world ?j ?o (Some (OtherException ''disk full''))"
  let ?s2 = "\<lparr>files = [default_filename \<mapsto> [PageBreak]], effects = []\<rparr>"
  have g: "requests_get ?w1 (fetch_request ?w1 ''A'') = requests_get ?w2 (fetch_request ?w2 ''B'')"
    by (simp add: world_def)
  have p: "\<forall>text. requests_post ?w1 (summarize_request text)
                  = requests_post ?w2 (summarize_request text)"
    by (simp add: world_def)
  have y: "py_str ?w1 = py_str ?w2"
    by (simp add: world_def)
  have "map paragraphs (written_documents (new_effects sys0 (snd (run ?w1 ''A'' sys0))))
          = [[''All systems stable.'']]"
    by (simp add: run_written_documents fetch_issues_try_def world_def answer_def bind_exn_def
        py_get_def dict_get_def py_len_def py_iter_def normalize_issue_def issue1_def issue2_def
        raw_issue_def issues_string_def issue_line_def issue_data_def py_getitem_def
        summarize_try_def py_strip_def strip_def isspace_def paragraphs_build_document)
  then show ?thesis
    using run_deterministic [OF g p y, of sys0 ?s2] by simp
qed

end
